theory Spec2Isabelle
  imports Complex_Main "HOL-Library.Word"
begin

section \<open>Data insights of ml-io: the column analyzer and its driver\<close>

text \<open>
  The development embeds \<^verbatim>\<open>src/mlio-py/mlio/core/insights.cxx\<close> (the accumulator
  \<^verbatim>\<open>column_analysis\<close>, the per-cell update of \<^verbatim>\<open>column_analyzer::operator()\<close> and the
  driver \<^verbatim>\<open>analyze_dataset\<close>) and the string helpers of \<^verbatim>\<open>src/mlio/util/string.cxx\<close>.
\<close>

subsection \<open>Machine numbers\<close>

text \<open>
  \<^verbatim>\<open>long\<close> is the 64-bit integer of the LP64 targets of the library. Every counter starts
  at 0 and grows by at most two per cell, so an overflow, which C++ leaves undefined, needs
  at least \<open>2 ^ 62\<close> cells in one column; the model wraps at \<open>2 ^ 64\<close> as the machine
  addition does.
\<close>

type_synonym long = "64 word"

text \<open>
  \<^verbatim>\<open>double\<close> is IEEE 754 binary64, modelled by value: a NaN, the two infinities, or the
  rational number a finite double denotes. Arithmetic rounds the exact result to the nearest
  representable value, ties to even (53 significant bits, exponents from \<open>-1022\<close> to
  \<open>1023\<close>, gradual underflow). The sign of a zero and the payload of a NaN are not kept: the
  analyzer only adds, compares and tests for NaN, and none of these reads them.
\<close>

datatype double = NaN | PosInf | NegInf | Num rat

definition pow2 :: "int \<Rightarrow> rat" where
  "pow2 e = (if 0 \<le> e then 2 ^ nat e else 1 / 2 ^ nat (- e))"

definition round_half_even :: "rat \<Rightarrow> int" where
  "round_half_even q =
     (let f = \<lfloor>q\<rfloor>; r = q - of_int f
      in if r < 1 / 2 then f else if 1 / 2 < r then f + 1 else if even f then f else f + 1)"

text \<open>The number of binary digits of a positive integer.\<close>

function bit_length :: "int \<Rightarrow> int" where
  "bit_length n = (if n \<le> 0 then 0 else 1 + bit_length (n div 2))"
  by pat_completeness auto
termination
  by (relation "measure nat") auto

declare bit_length.simps [simp del]

text \<open>\<open>floor_log2 q\<close> is the exponent \<open>e\<close> with \<open>2 ^ e \<le> q < 2 ^ (e + 1)\<close>, for \<open>0 < q\<close>.\<close>

definition floor_log2 :: "rat \<Rightarrow> int" where
  "floor_log2 q =
     (let (p, d) = quotient_of q;
          e = bit_length p - bit_length d
      in if pow2 e \<le> q then e else e - 1)"

definition round_binary64 :: "rat \<Rightarrow> double" where
  "round_binary64 q =
     (if q = 0 then Num 0
      else
        let a = \<bar>q\<bar>;
            e = max (floor_log2 a) (- 1022);
            ulp = pow2 (e - 52);
            m = round_half_even (a / ulp)
        in if 1024 \<le> e \<or> (e = 1023 \<and> m = 2 ^ 53)
           then (if 0 < q then PosInf else NegInf)
           else Num (sgn q * (of_int m * ulp)))"

definition isnan :: "double \<Rightarrow> bool" where
  "isnan d = (d = NaN)"

fun dneg :: "double \<Rightarrow> double" where
  "dneg NaN = NaN"
| "dneg PosInf = NegInf"
| "dneg NegInf = PosInf"
| "dneg (Num a) = Num (- a)"

fun dadd :: "double \<Rightarrow> double \<Rightarrow> double" where
  "dadd NaN y = NaN"
| "dadd x NaN = NaN"
| "dadd PosInf NegInf = NaN"
| "dadd NegInf PosInf = NaN"
| "dadd PosInf y = PosInf"
| "dadd x PosInf = PosInf"
| "dadd NegInf y = NegInf"
| "dadd x NegInf = NegInf"
| "dadd (Num a) (Num b) = round_binary64 (a + b)"

definition dsub :: "double \<Rightarrow> double \<Rightarrow> double" where
  "dsub x y = dadd x (dneg y)"

text \<open>Division; a zero divisor counts as \<open>+0\<close>.\<close>

fun ddiv :: "double \<Rightarrow> double \<Rightarrow> double" where
  "ddiv NaN y = NaN"
| "ddiv x NaN = NaN"
| "ddiv PosInf PosInf = NaN"
| "ddiv PosInf NegInf = NaN"
| "ddiv NegInf PosInf = NaN"
| "ddiv NegInf NegInf = NaN"
| "ddiv PosInf (Num b) = (if b < 0 then NegInf else PosInf)"
| "ddiv NegInf (Num b) = (if b < 0 then PosInf else NegInf)"
| "ddiv (Num a) PosInf = Num 0"
| "ddiv (Num a) NegInf = Num 0"
| "ddiv (Num a) (Num b) =
     (if b = 0 then (if a = 0 then NaN else if 0 < a then PosInf else NegInf)
      else round_binary64 (a / b))"

text \<open>The conversion of a \<^verbatim>\<open>long\<close> to \<^verbatim>\<open>double\<close>.\<close>

definition of_long :: "long \<Rightarrow> double" where
  "of_long n = round_binary64 (of_int (sint n))"

text \<open>The comparisons \<^verbatim>\<open><\<close> and \<^verbatim>\<open>>\<close> of doubles: false as soon as one side is a NaN.\<close>

fun dless :: "double \<Rightarrow> double \<Rightarrow> bool" where
  "dless NaN y = False"
| "dless x NaN = False"
| "dless PosInf y = False"
| "dless x NegInf = False"
| "dless NegInf y = True"
| "dless x PosInf = True"
| "dless (Num a) (Num b) = (a < b)"

definition dgreater :: "double \<Rightarrow> double \<Rightarrow> bool" where
  "dgreater x y = dless y x"

subsection \<open>String helpers (mlio/util/string.cxx)\<close>

text \<open>
  \<^verbatim>\<open>std::isspace\<close> and \<^verbatim>\<open>::tolower\<close> in the "C" locale, which is the locale of a process
  that never calls \<^verbatim>\<open>setlocale\<close>: the six ASCII white-space characters, and the letters
  \<^verbatim>\<open>A\<close> to \<^verbatim>\<open>Z\<close>.
\<close>

definition isspace :: "char \<Rightarrow> bool" where
  "isspace ch = (of_char ch \<in> {9, 10, 11, 12, 13, 32 :: nat})"

definition tolower :: "char \<Rightarrow> char" where
  "tolower ch =
     (let n = of_char ch :: nat in if 65 \<le> n \<and> n \<le> 90 then char_of (n + 32) else ch)"

text \<open>
  \<^verbatim>\<open>std::find_if_not(first, last, p)\<close>, as the offset of the iterator it returns from
  \<^verbatim>\<open>first\<close>: the number of leading elements that satisfy \<^verbatim>\<open>p\<close>.
\<close>

fun find_if_not :: "('a \<Rightarrow> bool) \<Rightarrow> 'a list \<Rightarrow> nat" where
  "find_if_not p [] = 0"
| "find_if_not p (x # xs) = (if p x then Suc (find_if_not p xs) else 0)"

definition find_first_non_space :: "string \<Rightarrow> nat" where
  "find_first_non_space s = find_if_not isspace s"

definition ltrim :: "string \<Rightarrow> string" where
  "ltrim s = (let offset = find_first_non_space s in drop offset s)"

definition rtrim :: "string \<Rightarrow> string" where
  "rtrim s = (let offset = find_first_non_space (rev s) in take (length s - offset) s)"

definition trim :: "string \<Rightarrow> string" where
  "trim s = rtrim (ltrim s)"

text \<open>
  \<^verbatim>\<open>matches\<close> copies its argument, calls \<^verbatim>\<open>trim(local_copy)\<close> and looks the copy up.
  \<^verbatim>\<open>trim\<close> takes a \<^verbatim>\<open>std::string_view\<close> by value and returns the trimmed view; the call
  statement drops that value, so the string looked up is the copy as it was.
\<close>

definition matches :: "string \<Rightarrow> string set \<Rightarrow> bool" where
  "matches s match_values =
     (let local_copy = s;
          dropped = trim local_copy
      in local_copy \<in> match_values)"

definition only_whitespace :: "string \<Rightarrow> bool" where
  "only_whitespace s = (let pos = find_if_not isspace s in pos = length s)"

subsection \<open>The accumulator (class column_analysis)\<close>

record column_analysis =
  column_name :: string
  rows_seen :: long
  numeric_mean :: double
  numeric_count :: long
  numeric_nan_count :: long
  numeric_min :: double
  numeric_max :: double
  string_empty_count :: long
  string_only_whitespace_count :: long
  string_null_like_count :: long
  string_captured_unique_values :: "string set"
  string_captured_unique_values_overflowed :: bool
  null_empty_count :: long
  null_like_count :: long
  null_whitespace_only_count :: long
  example_value :: string

text \<open>The constructor \<^verbatim>\<open>column_analysis(std::string name)\<close>.\<close>

definition column_analysis :: "string \<Rightarrow> column_analysis" where
  "column_analysis name =
     \<lparr> column_name = name,
       rows_seen = 0,
       numeric_mean = Num 0,
       numeric_count = 0,
       numeric_nan_count = 0,
       numeric_min = NaN,
       numeric_max = NaN,
       string_empty_count = 0,
       string_only_whitespace_count = 0,
       string_null_like_count = 0,
       string_captured_unique_values = {},
       string_captured_unique_values_overflowed = False,
       null_empty_count = 0,
       null_like_count = 0,
       null_whitespace_only_count = 0,
       example_value = [] \<rparr>"

subsection \<open>The per-cell update (column_analyzer::operator(), the inner loop)\<close>

text \<open>
  \<^verbatim>\<open>mlio::try_parse_float\<close> is declared in \<^verbatim>\<open>mlio/util/number.h\<close>, outside the sources
  at hand. The analyzer is modelled over any parser \<open>try_parse_float\<close>: \<open>None\<close> is a result
  other than \<^verbatim>\<open>parse_result::ok\<close>, \<open>Some v\<close> is \<^verbatim>\<open>ok\<close> with \<^verbatim>\<open>as_float = v\<close>.
  The two configuration sets are passed by value; \<open>should_capture\<close> is
  \<^verbatim>\<open>capture_columns->count(feature_idx) > 0\<close>.
\<close>

type_synonym float_parser = "string \<Rightarrow> double option"

text \<open>The block \<^verbatim>\<open>if (should_capture) { ... }\<close>.\<close>

definition capture_unique_value ::
  "bool \<Rightarrow> nat \<Rightarrow> column_analysis \<Rightarrow> string \<Rightarrow> column_analysis"
where
  "capture_unique_value should_capture max_capture_count fs as_string =
     (if should_capture then
        if card (string_captured_unique_values fs) < max_capture_count then
          fs\<lparr>string_captured_unique_values :=
               insert as_string (string_captured_unique_values fs)\<rparr>
        else if as_string \<notin> string_captured_unique_values fs then
          fs\<lparr>string_captured_unique_values_overflowed := True\<rparr>
        else fs
      else fs)"

text \<open>The block under the comment \<^verbatim>\<open>// Numeric analyzers\<close>.\<close>

definition numeric_analyzers ::
  "float_parser \<Rightarrow> column_analysis \<Rightarrow> string \<Rightarrow> column_analysis"
where
  "numeric_analyzers try_parse_float fs as_string =
     (case try_parse_float as_string of
        None \<Rightarrow> fs\<lparr>numeric_nan_count := numeric_nan_count fs + 1\<rparr>
      | Some as_float \<Rightarrow>
          let fs = fs\<lparr>numeric_count := numeric_count fs + 1\<rparr>;
              fs = (if isnan (numeric_min fs) \<or> dless as_float (numeric_min fs)
                    then fs\<lparr>numeric_min := as_float\<rparr> else fs);
              fs = (if isnan (numeric_max fs) \<or> dgreater as_float (numeric_max fs)
                    then fs\<lparr>numeric_max := as_float\<rparr> else fs)
          in fs)"

text \<open>The block under the comment \<^verbatim>\<open>// String analyzers.\<close>\<close>

definition string_analyzers ::
  "string set \<Rightarrow> column_analysis \<Rightarrow> string \<Rightarrow> column_analysis"
where
  "string_analyzers null_like_values fs as_string =
     (let fs = (if length as_string = 0
                then fs\<lparr>string_empty_count := string_empty_count fs + 1\<rparr> else fs);
          fs = (if only_whitespace as_string
                then fs\<lparr>string_only_whitespace_count := string_only_whitespace_count fs + 1\<rparr>
                else fs);
          lowercase_string = map tolower as_string;
          fs = (if matches lowercase_string null_like_values
                then fs\<lparr>string_null_like_count := string_null_like_count fs + 1\<rparr> else fs)
      in fs)"

text \<open>
  The body of the loop over the cells: the four unconditional statements at its head, then
  the three blocks above, in the order of the source.
\<close>

definition analyze_cell ::
  "float_parser \<Rightarrow> string set \<Rightarrow> bool \<Rightarrow> nat \<Rightarrow> column_analysis \<Rightarrow> string \<Rightarrow> column_analysis"
where
  "analyze_cell try_parse_float null_like_values should_capture max_capture_count
       feature_statistics as_string =
     (let fs = feature_statistics\<lparr>rows_seen := rows_seen feature_statistics + 1\<rparr>;
          fs = fs\<lparr>example_value := as_string\<rparr>;
          fs = fs\<lparr>numeric_min := dadd (numeric_min fs) (Num 1)\<rparr>;
          fs = fs\<lparr>string_null_like_count := string_null_like_count fs + 1\<rparr>;
          fs = capture_unique_value should_capture max_capture_count fs as_string;
          fs = numeric_analyzers try_parse_float fs as_string;
          fs = string_analyzers null_like_values fs as_string
      in fs)"

text \<open>The loop \<^verbatim>\<open>for (std::string as_string : cells)\<close> over the cells of one tensor.\<close>

fun analyze_cells ::
  "float_parser \<Rightarrow> string set \<Rightarrow> bool \<Rightarrow> nat \<Rightarrow> column_analysis \<Rightarrow> string list \<Rightarrow> column_analysis"
where
  "analyze_cells try_parse_float null_like_values should_capture max_capture_count
       feature_statistics [] = feature_statistics"
| "analyze_cells try_parse_float null_like_values should_capture max_capture_count
       feature_statistics (as_string # cells) =
     analyze_cells try_parse_float null_like_values should_capture max_capture_count
       (analyze_cell try_parse_float null_like_values should_capture max_capture_count
          feature_statistics as_string)
       cells"

subsection \<open>Examples, tensors and the range loop (column_analyzer::operator())\<close>

text \<open>
  The reader, the examples and the tensors are collaborators of the analyzer. The model keeps
  what the analyzer reads of them: of a tensor its \<^verbatim>\<open>dtype()\<close> and the cells that
  \<^verbatim>\<open>data().as<std::string>()\<close> yields, of an example the names of its schema descriptors
  and its features. The enumerators of \<^verbatim>\<open>mlio::data_type\<close> are those of the \<^verbatim>\<open>switch\<close>
  in \<^verbatim>\<open>analyze_dataset\<close>.
\<close>

datatype data_type =
    dt_size | dt_float16 | dt_float32 | dt_float64
  | dt_sint8 | dt_sint16 | dt_sint32 | dt_sint64
  | dt_uint8 | dt_uint16 | dt_uint32 | dt_uint64
  | dt_string

record tensor =
  dtype :: data_type
  cells :: "string list"

record example =
  descriptors :: "string list"
  features :: "tensor list"

text \<open>
  The two exceptions of the analysis: the \<^verbatim>\<open>std::runtime_error\<close> thrown for a tensor that
  is not a string tensor, and the \<^verbatim>\<open>std::out_of_range\<close> of \<^verbatim>\<open>std::vector::at\<close>.
  A function that can throw returns the exception, if any, together with the accumulators as
  they are at that point.
\<close>

datatype error = runtime_error | out_of_range

text \<open>
  \<^verbatim>\<open>operator()(const blocked_range<size_t>& r)\<close>: the range is the list of its indices.
  \<^verbatim>\<open>parallel_for\<close> splits \<open>[0, columns.size())\<close> into such ranges and runs them on several
  threads; each index occurs in one range and each iteration touches only the accumulator of
  its own index, so the model runs the indices in increasing order. An exception of an
  iteration is thrown again by \<^verbatim>\<open>parallel_for\<close> in the calling thread; which other
  accumulators have been updated by then depends on the schedule, and does not show in any
  result, since the exception leaves \<^verbatim>\<open>analyze_dataset\<close>.
\<close>

fun column_analyzer ::
  "float_parser \<Rightarrow> string set \<Rightarrow> nat set \<Rightarrow> nat \<Rightarrow> example \<Rightarrow> nat list \<Rightarrow>
   column_analysis list \<Rightarrow> error option \<times> column_analysis list"
where
  "column_analyzer try_parse_float null_like_values capture_columns max_capture_count
       current_example [] columns = (None, columns)"
| "column_analyzer try_parse_float null_like_values capture_columns max_capture_count
       current_example (feature_idx # r) columns =
     (if length (features current_example) \<le> feature_idx then (Some out_of_range, columns)
      else if length columns \<le> feature_idx then (Some out_of_range, columns)
      else
        let t = features current_example ! feature_idx;
            feature_statistics = columns ! feature_idx;
            should_capture = (feature_idx \<in> capture_columns);
            feature_statistics =
              analyze_cells try_parse_float null_like_values should_capture max_capture_count
                feature_statistics (cells t);
            columns = columns[feature_idx := feature_statistics]
        in column_analyzer try_parse_float null_like_values capture_columns max_capture_count
             current_example r columns)"

subsection \<open>The driver (analyze_dataset)\<close>

text \<open>The loop over \<^verbatim>\<open>exm->features()\<close> with the \<^verbatim>\<open>switch\<close> on \<^verbatim>\<open>t->dtype()\<close>.\<close>

fun check_dtypes :: "tensor list \<Rightarrow> error option" where
  "check_dtypes [] = None"
| "check_dtypes (t # ts) =
     (case dtype t of
        dt_string \<Rightarrow> check_dtypes ts
      | dt_size \<Rightarrow> Some runtime_error
      | dt_float16 \<Rightarrow> Some runtime_error
      | dt_float32 \<Rightarrow> Some runtime_error
      | dt_float64 \<Rightarrow> Some runtime_error
      | dt_sint8 \<Rightarrow> Some runtime_error
      | dt_sint16 \<Rightarrow> Some runtime_error
      | dt_sint32 \<Rightarrow> Some runtime_error
      | dt_sint64 \<Rightarrow> Some runtime_error
      | dt_uint8 \<Rightarrow> Some runtime_error
      | dt_uint16 \<Rightarrow> Some runtime_error
      | dt_uint32 \<Rightarrow> Some runtime_error
      | dt_uint64 \<Rightarrow> Some runtime_error)"

text \<open>
  The block \<^verbatim>\<open>if (columns.empty()) { ... }\<close>: one accumulator is pushed for every
  descriptor of the schema, then the types of the features are checked.
\<close>

definition allocate_columns ::
  "example \<Rightarrow> column_analysis list \<Rightarrow> error option \<times> column_analysis list"
where
  "allocate_columns exm columns =
     (if columns = [] then
        let columns = columns @ map column_analysis (descriptors exm)
        in (check_dtypes (features exm), columns)
      else (None, columns))"

text \<open>
  The \<^verbatim>\<open>while\<close> loop. The reader is the list of the examples that \<^verbatim>\<open>read_example()\<close>
  returns before it returns \<^verbatim>\<open>nullptr\<close>.
\<close>

fun analyze_loop ::
  "float_parser \<Rightarrow> string set \<Rightarrow> nat set \<Rightarrow> nat \<Rightarrow> example list \<Rightarrow>
   column_analysis list \<Rightarrow> error option \<times> column_analysis list"
where
  "analyze_loop try_parse_float null_like_values capture_columns max_capture_count
       [] columns = (None, columns)"
| "analyze_loop try_parse_float null_like_values capture_columns max_capture_count
       (exm # reader) columns =
     (case allocate_columns exm columns of
        (Some e, columns) \<Rightarrow> (Some e, columns)
      | (None, columns) \<Rightarrow>
          (case column_analyzer try_parse_float null_like_values capture_columns
                  max_capture_count exm [0..<length columns] columns of
             (Some e, columns) \<Rightarrow> (Some e, columns)
           | (None, columns) \<Rightarrow>
               analyze_loop try_parse_float null_like_values capture_columns
                 max_capture_count reader columns))"

text \<open>
  The result of \<^verbatim>\<open>analyze_dataset\<close>: an exception leaves the function and the local
  vector of accumulators is destroyed; otherwise the vector is wrapped in a
  \<^verbatim>\<open>data_analysis\<close>.
\<close>

datatype data_analysis = data_analysis "column_analysis list"

definition analyze_dataset ::
  "float_parser \<Rightarrow> example list \<Rightarrow> string set \<Rightarrow> nat set \<Rightarrow> nat \<Rightarrow> error + data_analysis"
where
  "analyze_dataset try_parse_float reader null_like_values capture_columns max_capture_count =
     (case analyze_loop try_parse_float null_like_values capture_columns max_capture_count
             reader [] of
        (Some e, columns) \<Rightarrow> Inl e
      | (None, columns) \<Rightarrow> Inr (data_analysis columns))"

subsection \<open>The table of counters of register_insights\<close>

text \<open>
  \<^verbatim>\<open>long_statistic_names\<close>: the names under which the \<^verbatim>\<open>long\<close> fields are bound as
  attributes of \<^verbatim>\<open>ColumnAnalysis\<close> and are keys of \<^verbatim>\<open>to_dict\<close>, each with its member.
\<close>

definition long_statistic_names :: "(string \<times> (column_analysis \<Rightarrow> long)) list" where
  "long_statistic_names =
     [(''rows_seen'', rows_seen),
      (''numeric_count'', numeric_count),
      (''numeric_nan_count'', numeric_nan_count),
      (''string_empty_count'', string_empty_count),
      (''string_only_whitespace_count'', string_only_whitespace_count),
      (''string_null_like_count'', string_null_like_count),
      (''null_empty_count'', null_empty_count),
      (''null_like_count'', null_like_count),
      (''null_whitespace_only_count'', null_whitespace_only_count)]"

subsection \<open>What the specification says of the mean, and a parser for its scenarios\<close>

text \<open>
  The update of the mean in the words of the specification,
  \<^verbatim>\<open>mean += (value - mean) / numeric_count\<close>, applied at every cell that parses, after
  \<^verbatim>\<open>numeric_count\<close> has been incremented. It is what the specification describes, not a
  function of the source; it is compared with the field \<open>numeric_mean\<close> of the source below.
\<close>

definition mean_update :: "double \<Rightarrow> double \<Rightarrow> long \<Rightarrow> double" where
  "mean_update mean v n = dadd mean (ddiv (dsub v mean) (of_long n))"

fun specified_mean :: "float_parser \<Rightarrow> double \<Rightarrow> long \<Rightarrow> string list \<Rightarrow> double" where
  "specified_mean try_parse_float mean n [] = mean"
| "specified_mean try_parse_float mean n (as_string # rest) =
     (case try_parse_float as_string of
        None \<Rightarrow> specified_mean try_parse_float mean n rest
      | Some as_float \<Rightarrow>
          specified_mean try_parse_float (mean_update mean as_float (n + 1)) (n + 1) rest)"

text \<open>
  Modelled from the spec: \<^verbatim>\<open>mlio::try_parse_float\<close> (\<^verbatim>\<open>mlio/util/number.h\<close>) is not
  among the sources. Scenario A of the specification fixes its result at five cells: \<^verbatim>\<open>"1"\<close>
  and \<^verbatim>\<open>"2"\<close> parse to 1 and 2; the empty cell, the cell of two spaces and \<^verbatim>\<open>"abc"\<close> do
  not parse. \<open>scenario_parse\<close> has these values, and rejects every other cell; it stands for
  the parser only in the evaluations at concrete cells below, which use no other cell that
  parses.
\<close>

definition scenario_parse :: float_parser where
  "scenario_parse as_string =
     (if as_string = ''1'' then Some (Num 1)
      else if as_string = ''2'' then Some (Num 2)
      else None)"

section \<open>Properties\<close>

subsection \<open>What each block of the loop body does to each field\<close>

lemma capture_unique_value_fields [simp]:
  "column_name (capture_unique_value sc m fs c) = column_name fs"
  "rows_seen (capture_unique_value sc m fs c) = rows_seen fs"
  "numeric_mean (capture_unique_value sc m fs c) = numeric_mean fs"
  "numeric_count (capture_unique_value sc m fs c) = numeric_count fs"
  "numeric_nan_count (capture_unique_value sc m fs c) = numeric_nan_count fs"
  "numeric_min (capture_unique_value sc m fs c) = numeric_min fs"
  "numeric_max (capture_unique_value sc m fs c) = numeric_max fs"
  "string_empty_count (capture_unique_value sc m fs c) = string_empty_count fs"
  "string_only_whitespace_count (capture_unique_value sc m fs c) =
     string_only_whitespace_count fs"
  "string_null_like_count (capture_unique_value sc m fs c) = string_null_like_count fs"
  "null_empty_count (capture_unique_value sc m fs c) = null_empty_count fs"
  "null_like_count (capture_unique_value sc m fs c) = null_like_count fs"
  "null_whitespace_only_count (capture_unique_value sc m fs c) = null_whitespace_only_count fs"
  "example_value (capture_unique_value sc m fs c) = example_value fs"
  "string_captured_unique_values (capture_unique_value sc m fs c) =
     (if sc \<and> card (string_captured_unique_values fs) < m
      then insert c (string_captured_unique_values fs) else string_captured_unique_values fs)"
  "string_captured_unique_values_overflowed (capture_unique_value sc m fs c) =
     (string_captured_unique_values_overflowed fs
      \<or> (sc \<and> \<not> card (string_captured_unique_values fs) < m
          \<and> c \<notin> string_captured_unique_values fs))"
  by (simp_all add: capture_unique_value_def)

lemma numeric_analyzers_fields [simp]:
  "column_name (numeric_analyzers tpf fs c) = column_name fs"
  "rows_seen (numeric_analyzers tpf fs c) = rows_seen fs"
  "numeric_mean (numeric_analyzers tpf fs c) = numeric_mean fs"
  "numeric_count (numeric_analyzers tpf fs c) =
     numeric_count fs + (if tpf c = None then 0 else 1)"
  "numeric_nan_count (numeric_analyzers tpf fs c) =
     numeric_nan_count fs + (if tpf c = None then 1 else 0)"
  "string_empty_count (numeric_analyzers tpf fs c) = string_empty_count fs"
  "string_only_whitespace_count (numeric_analyzers tpf fs c) = string_only_whitespace_count fs"
  "string_null_like_count (numeric_analyzers tpf fs c) = string_null_like_count fs"
  "string_captured_unique_values (numeric_analyzers tpf fs c) =
     string_captured_unique_values fs"
  "string_captured_unique_values_overflowed (numeric_analyzers tpf fs c) =
     string_captured_unique_values_overflowed fs"
  "null_empty_count (numeric_analyzers tpf fs c) = null_empty_count fs"
  "null_like_count (numeric_analyzers tpf fs c) = null_like_count fs"
  "null_whitespace_only_count (numeric_analyzers tpf fs c) = null_whitespace_only_count fs"
  "example_value (numeric_analyzers tpf fs c) = example_value fs"
  "numeric_min (numeric_analyzers tpf fs c) =
     (case tpf c of
        None \<Rightarrow> numeric_min fs
      | Some v \<Rightarrow> if isnan (numeric_min fs) \<or> dless v (numeric_min fs) then v
                  else numeric_min fs)"
  "numeric_max (numeric_analyzers tpf fs c) =
     (case tpf c of
        None \<Rightarrow> numeric_max fs
      | Some v \<Rightarrow> if isnan (numeric_max fs) \<or> dgreater v (numeric_max fs) then v
                  else numeric_max fs)"
  by (simp_all add: numeric_analyzers_def Let_def split: option.split)

lemma string_analyzers_fields [simp]:
  "column_name (string_analyzers nl fs c) = column_name fs"
  "rows_seen (string_analyzers nl fs c) = rows_seen fs"
  "numeric_mean (string_analyzers nl fs c) = numeric_mean fs"
  "numeric_count (string_analyzers nl fs c) = numeric_count fs"
  "numeric_nan_count (string_analyzers nl fs c) = numeric_nan_count fs"
  "numeric_min (string_analyzers nl fs c) = numeric_min fs"
  "numeric_max (string_analyzers nl fs c) = numeric_max fs"
  "string_empty_count (string_analyzers nl fs c) =
     string_empty_count fs + (if length c = 0 then 1 else 0)"
  "string_only_whitespace_count (string_analyzers nl fs c) =
     string_only_whitespace_count fs + (if only_whitespace c then 1 else 0)"
  "string_null_like_count (string_analyzers nl fs c) =
     string_null_like_count fs + (if matches (map tolower c) nl then 1 else 0)"
  "string_captured_unique_values (string_analyzers nl fs c) = string_captured_unique_values fs"
  "string_captured_unique_values_overflowed (string_analyzers nl fs c) =
     string_captured_unique_values_overflowed fs"
  "null_empty_count (string_analyzers nl fs c) = null_empty_count fs"
  "null_like_count (string_analyzers nl fs c) = null_like_count fs"
  "null_whitespace_only_count (string_analyzers nl fs c) = null_whitespace_only_count fs"
  "example_value (string_analyzers nl fs c) = example_value fs"
  by (simp_all add: string_analyzers_def Let_def)


lemma analyze_cell_fields:
  "column_name (analyze_cell tpf nl sc m fs c) = column_name fs"
  "rows_seen (analyze_cell tpf nl sc m fs c) = rows_seen fs + 1"
  "numeric_mean (analyze_cell tpf nl sc m fs c) = numeric_mean fs"
  "numeric_count (analyze_cell tpf nl sc m fs c) =
     numeric_count fs + (if tpf c = None then 0 else 1)"
  "numeric_nan_count (analyze_cell tpf nl sc m fs c) =
     numeric_nan_count fs + (if tpf c = None then 1 else 0)"
  "numeric_min (analyze_cell tpf nl sc m fs c) =
     (case tpf c of
        None \<Rightarrow> dadd (numeric_min fs) (Num 1)
      | Some v \<Rightarrow>
          if isnan (dadd (numeric_min fs) (Num 1)) \<or> dless v (dadd (numeric_min fs) (Num 1))
          then v else dadd (numeric_min fs) (Num 1))"
  "numeric_max (analyze_cell tpf nl sc m fs c) =
     (case tpf c of
        None \<Rightarrow> numeric_max fs
      | Some v \<Rightarrow> if isnan (numeric_max fs) \<or> dgreater v (numeric_max fs) then v
                  else numeric_max fs)"
  "string_empty_count (analyze_cell tpf nl sc m fs c) =
     string_empty_count fs + (if length c = 0 then 1 else 0)"
  "string_only_whitespace_count (analyze_cell tpf nl sc m fs c) =
     string_only_whitespace_count fs + (if only_whitespace c then 1 else 0)"
  "string_null_like_count (analyze_cell tpf nl sc m fs c) =
     string_null_like_count fs + 1 + (if matches (map tolower c) nl then 1 else 0)"
  "string_captured_unique_values (analyze_cell tpf nl sc m fs c) =
     (if sc \<and> card (string_captured_unique_values fs) < m
      then insert c (string_captured_unique_values fs) else string_captured_unique_values fs)"
  "string_captured_unique_values_overflowed (analyze_cell tpf nl sc m fs c) =
     (string_captured_unique_values_overflowed fs
      \<or> (sc \<and> \<not> card (string_captured_unique_values fs) < m
          \<and> c \<notin> string_captured_unique_values fs))"
  "null_empty_count (analyze_cell tpf nl sc m fs c) = null_empty_count fs"
  "null_like_count (analyze_cell tpf nl sc m fs c) = null_like_count fs"
  "null_whitespace_only_count (analyze_cell tpf nl sc m fs c) = null_whitespace_only_count fs"
  "example_value (analyze_cell tpf nl sc m fs c) = c"
  by (simp_all add: analyze_cell_def Let_def split: option.split)

subsection \<open>Invariants of the fold, of the range loop and of the driver\<close>

lemma analyze_cells_invariant:
  assumes step: "\<And>fs c. Q fs \<Longrightarrow> Q (analyze_cell tpf nl sc m fs c)"
  shows "Q fs \<Longrightarrow> Q (analyze_cells tpf nl sc m fs cs)"
  by (induction cs arbitrary: fs) (simp_all add: step)

lemma column_analyzer_invariant:
  assumes step: "\<And>sc fs c. Q fs \<Longrightarrow> Q (analyze_cell tpf nl sc m fs c)"
  shows "list_all Q columns \<Longrightarrow> list_all Q (snd (column_analyzer tpf nl cc m exm r columns))"
proof (induction r arbitrary: columns)
  case Nil
  then show ?case by simp
next
  case (Cons feature_idx r)
  show ?case
  proof (cases "length (features exm) \<le> feature_idx \<or> length columns \<le> feature_idx")
    case True
    with Cons.prems show ?thesis by auto
  next
    case False
    then have idx: "feature_idx < length columns" by simp
    with Cons.prems have "Q (columns ! feature_idx)"
      by (simp add: list_all_length)
    then have "Q (analyze_cells tpf nl (feature_idx \<in> cc) m (columns ! feature_idx)
                    (cells (features exm ! feature_idx)))"
      by (intro analyze_cells_invariant [where Q = Q] step)
    with Cons.prems idx have "list_all Q (columns[feature_idx :=
        analyze_cells tpf nl (feature_idx \<in> cc) m (columns ! feature_idx)
          (cells (features exm ! feature_idx))])"
      by (auto simp: list_all_length nth_list_update)
    from Cons.IH [OF this] False show ?thesis by (simp add: Let_def)
  qed
qed

lemma allocate_columns_invariant:
  assumes fresh: "\<And>name. Q (column_analysis name)"
  shows "list_all Q columns \<Longrightarrow> list_all Q (snd (allocate_columns exm columns))"
  by (simp add: allocate_columns_def Let_def list_all_iff fresh)

lemma analyze_loop_invariant:
  assumes fresh: "\<And>name. Q (column_analysis name)"
    and step: "\<And>sc fs c. Q fs \<Longrightarrow> Q (analyze_cell tpf nl sc m fs c)"
  shows "list_all Q columns \<Longrightarrow> list_all Q (snd (analyze_loop tpf nl cc m reader columns))"
proof (induction reader arbitrary: columns)
  case Nil
  then show ?case by simp
next
  case (Cons exm reader)
  obtain e1 cols1 where a: "allocate_columns exm columns = (e1, cols1)"
    by (cases "allocate_columns exm columns")
  have q1: "list_all Q cols1"
    using allocate_columns_invariant [of Q columns exm, OF fresh Cons.prems] a by simp
  obtain e2 cols2 where c: "column_analyzer tpf nl cc m exm [0..<length cols1] cols1 = (e2, cols2)"
    by (cases "column_analyzer tpf nl cc m exm [0..<length cols1] cols1")
  have q2: "list_all Q cols2"
    using column_analyzer_invariant [of Q tpf nl m cols1 cc exm "[0..<length cols1]", OF step q1] c
    by simp
  show ?case
    using a c q1 q2 Cons.IH [OF q2]
    by (cases e1; cases e2) simp_all
qed

text \<open>
  The same for a relation between the accumulators before and after: one that every cell
  preserves holds between the accumulators before and after any sequence of examples.
\<close>

lemma analyze_cells_relation:
  assumes step: "\<And>a b c. R a b \<Longrightarrow> R a (analyze_cell tpf nl sc m b c)"
  shows "R a b \<Longrightarrow> R a (analyze_cells tpf nl sc m b cs)"
  by (induction cs arbitrary: b) (simp_all add: step)

lemma column_analyzer_relation:
  assumes step: "\<And>sc a b c. R a b \<Longrightarrow> R a (analyze_cell tpf nl sc m b c)"
  shows "list_all2 R columns0 columns \<Longrightarrow>
         list_all2 R columns0 (snd (column_analyzer tpf nl cc m exm r columns))"
proof (induction r arbitrary: columns)
  case Nil
  then show ?case by simp
next
  case (Cons feature_idx r)
  show ?case
  proof (cases "length (features exm) \<le> feature_idx \<or> length columns \<le> feature_idx")
    case True
    with Cons.prems show ?thesis by auto
  next
    case False
    then have idx: "feature_idx < length columns" by simp
    with Cons.prems have "R (columns0 ! feature_idx) (columns ! feature_idx)"
      by (simp add: list_all2_conv_all_nth)
    then have "R (columns0 ! feature_idx)
                 (analyze_cells tpf nl (feature_idx \<in> cc) m (columns ! feature_idx)
                    (cells (features exm ! feature_idx)))"
      by (intro analyze_cells_relation [where R = R] step)
    with Cons.prems idx have "list_all2 R columns0 (columns[feature_idx :=
        analyze_cells tpf nl (feature_idx \<in> cc) m (columns ! feature_idx)
          (cells (features exm ! feature_idx))])"
      by (auto simp: list_all2_conv_all_nth nth_list_update)
    from Cons.IH [OF this] False show ?thesis by (simp add: Let_def)
  qed
qed

lemma analyze_loop_relation:
  assumes step: "\<And>sc a b c. R a b \<Longrightarrow> R a (analyze_cell tpf nl sc m b c)"
  shows "columns \<noteq> [] \<Longrightarrow> list_all2 R columns0 columns \<Longrightarrow>
         list_all2 R columns0 (snd (analyze_loop tpf nl cc m reader columns))"
proof (induction reader arbitrary: columns)
  case Nil
  then show ?case by simp
next
  case (Cons exm reader)
  obtain e2 cols2 where c: "column_analyzer tpf nl cc m exm [0..<length columns] columns = (e2, cols2)"
    by (cases "column_analyzer tpf nl cc m exm [0..<length columns] columns")
  have r2: "list_all2 R columns0 cols2"
    using column_analyzer_relation [of R tpf nl m columns0 columns cc exm "[0..<length columns]",
        OF step Cons.prems(2)] c
    by simp
  with Cons.prems have ne2: "cols2 \<noteq> []"
    by (auto simp: list_all2_conv_all_nth)
  show ?case
    using Cons.prems(1) c r2 Cons.IH [OF ne2 r2]
    by (cases e2) (simp_all add: allocate_columns_def)
qed

subsection \<open>The numeric counters\<close>

text \<open>
  Claim C1. Every cell adds one to \<open>rows_seen\<close> and one to exactly one of \<open>numeric_count\<close>
  (the cell parses as a float) and \<open>numeric_nan_count\<close> (it does not). Hence
  \<open>numeric_count + numeric_nan_count = rows_seen\<close> after every cell of every fold that starts
  from a new accumulator, and for every accumulator of the driver after any sequence of
  examples, whether the run has ended with an exception or not.
\<close>

theorem numeric_counts_partition_rows_seen:
  "rows_seen (analyze_cell tpf nl sc m fs c) = rows_seen fs + 1
   \<and> numeric_count (analyze_cell tpf nl sc m fs c) =
       numeric_count fs + (if tpf c = None then 0 else 1)
   \<and> numeric_nan_count (analyze_cell tpf nl sc m fs c) =
       numeric_nan_count fs + (if tpf c = None then 1 else 0)
   \<and> (let fs' = analyze_cells tpf nl sc m (column_analysis name) cs
      in numeric_count fs' + numeric_nan_count fs' = rows_seen fs')
   \<and> list_all (\<lambda>fs'. numeric_count fs' + numeric_nan_count fs' = rows_seen fs')
        (snd (analyze_loop tpf nl cc m reader []))"
proof -
  let ?Q = "\<lambda>fs'. numeric_count fs' + numeric_nan_count fs' = rows_seen fs'"
  have fresh: "?Q (column_analysis n)" for n
    by (simp add: column_analysis_def)
  have step: "?Q (analyze_cell tpf nl sc' m fs' c')" if "?Q fs'" for sc' fs' c'
    using that by (simp add: analyze_cell_fields)
  have fold: "?Q (analyze_cells tpf nl sc m (column_analysis name) cs)"
    by (rule analyze_cells_invariant [of ?Q]) (simp_all add: step fresh)
  have run: "list_all ?Q (snd (analyze_loop tpf nl cc m reader []))"
    by (rule analyze_loop_invariant [of ?Q]) (simp_all add: step fresh)
  show ?thesis
    using fold run by (simp add: analyze_cell_fields Let_def)
qed

subsection \<open>The captured unique values\<close>

lemma capture_bound_fresh:
  "finite (string_captured_unique_values (column_analysis name))
   \<and> card (string_captured_unique_values (column_analysis name)) \<le> m"
  by (simp add: column_analysis_def)

lemma capture_bound_step:
  assumes "finite (string_captured_unique_values fs)
           \<and> card (string_captured_unique_values fs) \<le> m"
  shows "finite (string_captured_unique_values (analyze_cell tpf nl sc m fs c))
         \<and> card (string_captured_unique_values (analyze_cell tpf nl sc m fs c)) \<le> m"
  using assms by (auto simp: analyze_cell_fields card_insert_if)

lemma not_captured_fold:
  "\<not> sc \<Longrightarrow>
   string_captured_unique_values (analyze_cells tpf nl sc m (column_analysis name) cs) = {}"
  by (rule analyze_cells_invariant [of "\<lambda>fs. string_captured_unique_values fs = {}"])
    (simp_all add: analyze_cell_fields column_analysis_def)

lemma overflowed_step:
  "(string_captured_unique_values_overflowed a \<longrightarrow> string_captured_unique_values_overflowed b)
   \<Longrightarrow>
   (string_captured_unique_values_overflowed a \<longrightarrow>
    string_captured_unique_values_overflowed (analyze_cell tpf nl sc m b c))"
  by (simp add: analyze_cell_fields)

lemma scenario_c_cells:
  "string_captured_unique_values
     (analyze_cells tpf nl True 2 (column_analysis name) [''a'', ''b'', ''c'', ''a''])
     = {''a'', ''b''}"
  "string_captured_unique_values_overflowed
     (analyze_cells tpf nl True 2 (column_analysis name) [''a'', ''b'', ''c'', ''a''])"
  by (simp_all add: analyze_cell_fields column_analysis_def insert_commute)

text \<open>
  Claim C5. After every cell of every fold that starts from a new accumulator, and for every
  accumulator of the driver after any sequence of examples, the set of captured values has at
  most \<open>max_capture_count\<close> elements. At any point of such a fold the overflow flag after the
  next cell is true exactly when it was true before or the column captures, the cell is not in
  the set and the set holds \<open>max_capture_count\<close> elements; for a positive bound, as the
  specification requires of \<open>max_capture_count\<close>, the condition that the column captures can
  be left out, since the set of a column that does not capture stays empty. The flag, once
  true, is true after any further cells, and for every accumulator of the driver after any
  further examples. Scenario C: a capturing column with bound 2 and the cells \<open>a, b, c, a\<close>
  ends with the set \<open>{a, b}\<close> and the flag true.
\<close>

theorem captured_unique_values_bounded:
  "(let fs' = analyze_cells tpf nl sc m (column_analysis name) cs
    in card (string_captured_unique_values fs') \<le> m
       \<and> string_captured_unique_values_overflowed (analyze_cell tpf nl sc m fs' c) =
           (string_captured_unique_values_overflowed fs'
            \<or> (sc \<and> c \<notin> string_captured_unique_values fs'
                \<and> card (string_captured_unique_values fs') = m))
       \<and> (0 < m \<longrightarrow>
            string_captured_unique_values_overflowed (analyze_cell tpf nl sc m fs' c) =
              (string_captured_unique_values_overflowed fs'
               \<or> (c \<notin> string_captured_unique_values fs'
                   \<and> card (string_captured_unique_values fs') = m))))
   \<and> list_all (\<lambda>fs'. card (string_captured_unique_values fs') \<le> m)
        (snd (analyze_loop tpf nl cc m reader []))
   \<and> (string_captured_unique_values_overflowed fs \<longrightarrow>
        string_captured_unique_values_overflowed (analyze_cells tpf nl sc m fs cs))
   \<and> (columns \<noteq> [] \<longrightarrow>
        list_all2
          (\<lambda>fs fs'. string_captured_unique_values_overflowed fs \<longrightarrow>
                     string_captured_unique_values_overflowed fs')
          columns (snd (analyze_loop tpf nl cc m reader columns)))
   \<and> string_captured_unique_values
        (analyze_cells tpf nl True 2 (column_analysis name) [''a'', ''b'', ''c'', ''a''])
        = {''a'', ''b''}
   \<and> string_captured_unique_values_overflowed
        (analyze_cells tpf nl True 2 (column_analysis name) [''a'', ''b'', ''c'', ''a''])"
proof -
  let ?S = string_captured_unique_values
  let ?F = string_captured_unique_values_overflowed
  let ?Q = "\<lambda>fs'. finite (?S fs') \<and> card (?S fs') \<le> m"
  let ?R = "\<lambda>fs fs'. ?F fs \<longrightarrow> ?F fs'"
  let ?fs' = "analyze_cells tpf nl sc m (column_analysis name) cs"
  have fold: "?Q ?fs'"
    by (intro analyze_cells_invariant [of ?Q] capture_bound_step capture_bound_fresh)
  have "list_all ?Q (snd (analyze_loop tpf nl cc m reader []))"
    by (intro analyze_loop_invariant [of ?Q] capture_bound_step capture_bound_fresh) simp_all
  then have run: "list_all (\<lambda>fs'. card (?S fs') \<le> m) (snd (analyze_loop tpf nl cc m reader []))"
    by (simp add: list_all_iff)
  have mono: "?R fs (analyze_cells tpf nl sc m fs cs)"
    by (intro analyze_cells_relation [where R = ?R] overflowed_step) simp_all
  have run_mono: "list_all2 ?R columns (snd (analyze_loop tpf nl cc m reader columns))"
    if "columns \<noteq> []"
    by (intro analyze_loop_relation [where R = ?R] overflowed_step that)
      (simp_all add: list_all2_conv_all_nth)
  have exact: "?F (analyze_cell tpf nl sc m ?fs' c) =
                 (?F ?fs' \<or> (sc \<and> c \<notin> ?S ?fs' \<and> card (?S ?fs') = m))"
    using fold by (auto simp: analyze_cell_fields)
  have exact_pos: "?F (analyze_cell tpf nl sc m ?fs' c) =
                     (?F ?fs' \<or> (c \<notin> ?S ?fs' \<and> card (?S ?fs') = m))"
    if "0 < m"
  proof (cases sc)
    case True
    with exact show ?thesis by simp
  next
    case False
    with that exact not_captured_fold [of sc tpf nl m name cs] show ?thesis by simp
  qed
  show ?thesis
    using fold run mono run_mono exact exact_pos scenario_c_cells [of tpf nl name]
    by (simp add: Let_def)
qed

text \<open>
  The hypotheses of C5 at Scenario C: the bound 2 is positive and the flag is set by the cell
  \<open>c\<close>, which arrives when the set holds \<open>a\<close> and \<open>b\<close>; the flag, true after \<open>a, b, c\<close>,
  is true after two more cells, and after one more example of the driver.
\<close>

theorem captured_unique_values_bounded_witness:
  "(0::nat) < 2
   \<and> string_captured_unique_values_overflowed
        (analyze_cell scenario_parse {} True 2
           (analyze_cells scenario_parse {} True 2 (column_analysis ''c'') [''a'', ''b''])
           ''c'') =
       (string_captured_unique_values_overflowed
          (analyze_cells scenario_parse {} True 2 (column_analysis ''c'') [''a'', ''b''])
        \<or> (''c'' \<notin> string_captured_unique_values
                    (analyze_cells scenario_parse {} True 2 (column_analysis ''c'')
                       [''a'', ''b''])
            \<and> card (string_captured_unique_values
                      (analyze_cells scenario_parse {} True 2 (column_analysis ''c'')
                         [''a'', ''b''])) = 2))
   \<and> string_captured_unique_values_overflowed
        (analyze_cells scenario_parse {} True 2 (column_analysis ''c'') [''a'', ''b'', ''c''])
   \<and> string_captured_unique_values_overflowed
        (analyze_cells scenario_parse {} True 2
           (analyze_cells scenario_parse {} True 2 (column_analysis ''c'')
              [''a'', ''b'', ''c''])
           [''a'', ''b''])
   \<and> [analyze_cells scenario_parse {} True 2 (column_analysis ''c'') [''a'', ''b'', ''c'']]
       \<noteq> []
   \<and> list_all2
        (\<lambda>fs fs'. string_captured_unique_values_overflowed fs \<longrightarrow>
                   string_captured_unique_values_overflowed fs')
        [analyze_cells scenario_parse {} True 2 (column_analysis ''c'') [''a'', ''b'', ''c'']]
        (snd (analyze_loop scenario_parse {} {0} 2
                [\<lparr>descriptors = [''c''],
                  features = [\<lparr>dtype = dt_string, cells = [''d'']\<rparr>]\<rparr>]
                [analyze_cells scenario_parse {} True 2 (column_analysis ''c'')
                   [''a'', ''b'', ''c'']]))"
proof -
  let ?F = string_captured_unique_values_overflowed
  let ?fs = "analyze_cells scenario_parse {} True 2 (column_analysis ''c'') [''a'', ''b'', ''c'']"
  let ?exm = "\<lparr>descriptors = [''c''], features = [\<lparr>dtype = dt_string, cells = [''d'']\<rparr>]\<rparr>"
  note t = captured_unique_values_bounded
    [where tpf = scenario_parse and nl = "{}" and sc = True and m = 2 and name = "''c''"
       and cs = "[''a'', ''b'']" and c = "''c''" and cc = "{0}" and reader = "[?exm]"
       and fs = ?fs and columns = "[?fs]", unfolded Let_def]
  have h1: "(0::nat) < 2"
    by simp
  have h2: "?F ?fs"
    by (simp add: analyze_cell_fields column_analysis_def)
  have h3: "[?fs] \<noteq> []"
    by simp
  from t have a: "(0::nat) < 2 \<longrightarrow>
      ?F (analyze_cell scenario_parse {} True 2
            (analyze_cells scenario_parse {} True 2 (column_analysis ''c'') [''a'', ''b''])
            ''c'') =
       (?F (analyze_cells scenario_parse {} True 2 (column_analysis ''c'') [''a'', ''b''])
        \<or> (''c'' \<notin> string_captured_unique_values
                    (analyze_cells scenario_parse {} True 2 (column_analysis ''c'')
                       [''a'', ''b''])
            \<and> card (string_captured_unique_values
                      (analyze_cells scenario_parse {} True 2 (column_analysis ''c'')
                         [''a'', ''b''])) = 2))"
    by blast
  from t have b: "?F ?fs \<longrightarrow> ?F (analyze_cells scenario_parse {} True 2 ?fs [''a'', ''b''])"
    by blast
  from t have c: "[?fs] \<noteq> [] \<longrightarrow>
      list_all2 (\<lambda>fs fs'. ?F fs \<longrightarrow> ?F fs') [?fs]
        (snd (analyze_loop scenario_parse {} {0} 2 [?exm] [?fs]))"
    by blast
  from h1 mp [OF a h1] h2 mp [OF b h2] h3 mp [OF c h3] show ?thesis
    by (intro conjI)
qed

subsection \<open>The three null counters\<close>

text \<open>
  Claim C10. \<open>null_empty_count\<close>, \<open>null_like_count\<close> and \<open>null_whitespace_only_count\<close>
  are 0 in a new accumulator and no cell changes them: they are 0 after every fold that
  starts from a new accumulator and for every accumulator of the driver after any sequence of
  examples, where the last three entries of the table of exported counters are these three
  names, each with the value 0.
\<close>

theorem null_counters_remain_zero:
  "null_empty_count (column_analysis name) = 0
   \<and> null_like_count (column_analysis name) = 0
   \<and> null_whitespace_only_count (column_analysis name) = 0
   \<and> null_empty_count (analyze_cell tpf nl sc m fs c) = null_empty_count fs
   \<and> null_like_count (analyze_cell tpf nl sc m fs c) = null_like_count fs
   \<and> null_whitespace_only_count (analyze_cell tpf nl sc m fs c) = null_whitespace_only_count fs
   \<and> (let fs' = analyze_cells tpf nl sc m (column_analysis name) cs
      in null_empty_count fs' = 0 \<and> null_like_count fs' = 0
         \<and> null_whitespace_only_count fs' = 0)
   \<and> list_all
        (\<lambda>fs'. null_empty_count fs' = 0 \<and> null_like_count fs' = 0
               \<and> null_whitespace_only_count fs' = 0)
        (snd (analyze_loop tpf nl cc m reader []))
   \<and> list_all
        (\<lambda>fs'. map (\<lambda>(name, method). (name, method fs')) (drop 6 long_statistic_names) =
           [(''null_empty_count'', 0), (''null_like_count'', 0),
            (''null_whitespace_only_count'', 0)])
        (snd (analyze_loop tpf nl cc m reader []))"
proof -
  let ?Q = "\<lambda>fs'. null_empty_count fs' = 0 \<and> null_like_count fs' = 0
                \<and> null_whitespace_only_count fs' = 0"
  have fold: "?Q (analyze_cells tpf nl sc m (column_analysis name) cs)"
    by (rule analyze_cells_invariant [of ?Q])
      (simp_all add: analyze_cell_fields column_analysis_def)
  have run: "list_all ?Q (snd (analyze_loop tpf nl cc m reader []))"
    by (rule analyze_loop_invariant [of ?Q])
      (simp_all add: analyze_cell_fields column_analysis_def)
  then have "list_all
        (\<lambda>fs'. map (\<lambda>(name, method). (name, method fs')) (drop 6 long_statistic_names) =
           [(''null_empty_count'', 0), (''null_like_count'', 0),
            (''null_whitespace_only_count'', 0)])
        (snd (analyze_loop tpf nl cc m reader []))"
    by (simp add: list_all_iff long_statistic_names_def)
  with fold run show ?thesis
    by (simp add: analyze_cell_fields column_analysis_def Let_def)
qed

subsection \<open>The string counters\<close>

lemma find_if_not_length_iff: "find_if_not p xs = length xs \<longleftrightarrow> list_all p xs"
proof (induction xs)
  case Nil
  show ?case by simp
next
  case (Cons x xs)
  then show ?case by auto
qed

lemma only_whitespace_iff: "only_whitespace s \<longleftrightarrow> list_all isspace s"
  by (simp add: only_whitespace_def find_if_not_length_iff)

lemma matches_iff: "matches s match_values \<longleftrightarrow> s \<in> match_values"
  by (simp add: matches_def Let_def)

text \<open>
  Claim C6, as the code has it. \<open>string_only_whitespace_count\<close> grows by one exactly when
  every character of the cell is white space, which is the case of the empty cell too;
  \<open>string_empty_count\<close> grows by one exactly when the cell is empty. An empty cell
  increments both counters.
\<close>

theorem only_whitespace_count_includes_empty_cell:
  "string_only_whitespace_count (analyze_cell tpf nl sc m fs c) =
     string_only_whitespace_count fs + (if list_all isspace c then 1 else 0)
   \<and> string_empty_count (analyze_cell tpf nl sc m fs c) =
       string_empty_count fs + (if c = [] then 1 else 0)
   \<and> string_only_whitespace_count (analyze_cell tpf nl sc m fs []) =
       string_only_whitespace_count fs + 1
   \<and> string_empty_count (analyze_cell tpf nl sc m fs []) = string_empty_count fs + 1"
  by (simp add: analyze_cell_fields only_whitespace_iff)

text \<open>
  Claim C6, as stated, at the empty cell: the claim has \<open>string_only_whitespace_count\<close>
  incremented if and only if the cell is not empty and all white space. At the empty cell
  the counter is incremented and the cell is empty.
\<close>

theorem only_whitespace_count_empty_cell_counterexample:
  "\<not> (string_only_whitespace_count
         (analyze_cell scenario_parse {} False 5000 (column_analysis ''c'') '''')
        = string_only_whitespace_count (column_analysis ''c'') + 1
       \<longleftrightarrow> '''' \<noteq> [] \<and> list_all isspace '''')"
  by (simp add: analyze_cell_fields only_whitespace_iff)

lemma tolower_scenario_cells:
  "tolower CHR ''a'' = CHR ''a''"
  "tolower CHR ''b'' = CHR ''b''"
  "tolower CHR ''c'' = CHR ''c''"
  "tolower CHR ''n'' = CHR ''n''"
  "tolower CHR ''N'' = CHR ''n''"
  "tolower CHR ''A'' = CHR ''a''"
  "tolower CHR ''/'' = CHR ''/''"
  "tolower CHR '' '' = CHR '' ''"
  by code_simp+

text \<open>
  Claim C2, evaluated on the code. Every cell adds one to \<open>string_null_like_count\<close> at the
  head of the loop body, and one more when the case-folded cell, not trimmed, is in
  \<open>null_like_values\<close>. With the null-like values \<open>n/a\<close> and \<open>null\<close>: the cell \<open>abc\<close>,
  which matches nothing, takes the counter of a new accumulator to 1; the cell \<open>N/A\<close> takes it
  to 2; the cell \<open>n/a\<close> between two spaces takes it to 1.
\<close>

theorem null_like_count_incremented_on_every_cell:
  "string_null_like_count (analyze_cell tpf nl sc m fs c) =
     string_null_like_count fs + 1 + (if map tolower c \<in> nl then 1 else 0)
   \<and> string_null_like_count
        (analyze_cell scenario_parse {''n/a'', ''null''} False 5000
           (column_analysis ''c'') ''abc'') = 1
   \<and> string_null_like_count
        (analyze_cell scenario_parse {''n/a'', ''null''} False 5000
           (column_analysis ''c'') ''N/A'') = 2
   \<and> string_null_like_count
        (analyze_cell scenario_parse {''n/a'', ''null''} False 5000
           (column_analysis ''c'') '' n/a '') = 1"
  by (simp add: analyze_cell_fields matches_iff column_analysis_def tolower_scenario_cells)

subsection \<open>The mean\<close>

text \<open>
  Claim C4, as the code has it. \<open>numeric_mean\<close> is 0 in a new accumulator and no cell
  changes it: it is 0 after every fold that starts from a new accumulator and for every
  accumulator of the driver after any sequence of examples.
\<close>

theorem numeric_mean_never_updated:
  "numeric_mean (column_analysis name) = Num 0
   \<and> numeric_mean (analyze_cell tpf nl sc m fs c) = numeric_mean fs
   \<and> numeric_mean (analyze_cells tpf nl sc m (column_analysis name) cs) = Num 0
   \<and> list_all (\<lambda>fs'. numeric_mean fs' = Num 0) (snd (analyze_loop tpf nl cc m reader []))"
proof -
  let ?Q = "\<lambda>fs'. numeric_mean fs' = Num 0"
  have fold: "?Q (analyze_cells tpf nl sc m (column_analysis name) cs)"
    by (rule analyze_cells_invariant [of ?Q])
      (simp_all add: analyze_cell_fields column_analysis_def)
  have run: "list_all ?Q (snd (analyze_loop tpf nl cc m reader []))"
    by (rule analyze_loop_invariant [of ?Q])
      (simp_all add: analyze_cell_fields column_analysis_def)
  show ?thesis
    using fold run by (simp add: analyze_cell_fields column_analysis_def)
qed

lemma specified_mean_scenario_a:
  "specified_mean scenario_parse (Num 0) 0 [''1'', ''2'', '''', ''  '', ''abc''] = Num (3 / 2)"
  by code_simp

text \<open>
  Claim C4, as stated, at Scenario A: after the cells \<open>1\<close>, \<open>2\<close>, the empty cell, two
  spaces and \<open>abc\<close> the mean of the specification is 1.5, and \<open>numeric_mean\<close> is not.
\<close>

theorem numeric_mean_scenario_a_counterexample:
  "specified_mean scenario_parse (Num 0) 0 [''1'', ''2'', '''', ''  '', ''abc''] = Num (3 / 2)
   \<and> numeric_mean
       (analyze_cells scenario_parse {} False 5000 (column_analysis ''c'')
          [''1'', ''2'', '''', ''  '', ''abc''])
     = Num 0
   \<and> numeric_mean
       (analyze_cells scenario_parse {} False 5000 (column_analysis ''c'')
          [''1'', ''2'', '''', ''  '', ''abc''])
     \<noteq> specified_mean scenario_parse (Num 0) 0 [''1'', ''2'', '''', ''  '', ''abc'']"
  by (simp add: specified_mean_scenario_a analyze_cell_fields column_analysis_def
      del: specified_mean.simps)

subsection \<open>The minimum and the maximum\<close>

lemma round_binary64_small:
  "round_binary64 2 = Num 2"
  "round_binary64 3 = Num 3"
  "round_binary64 4 = Num 4"
  "round_binary64 5 = Num 5"
  by (simp_all add: round_binary64_def floor_log2_def pow2_def round_half_even_def
      bit_length.simps Let_def)

lemma scenario_parse_cells:
  "scenario_parse ''1'' = Some (Num 1)"
  "scenario_parse ''2'' = Some (Num 2)"
  "scenario_parse '''' = None"
  "scenario_parse ''  '' = None"
  "scenario_parse ''abc'' = None"
  by (simp_all add: scenario_parse_def)

text \<open>
  Claim C3, evaluated on the code. The statement \<^verbatim>\<open>numeric_min += 1\<close> at the head of the
  loop body runs at every cell, before the comparison with the parsed value. With the cells
  \<open>1\<close> and \<open>2\<close> the minimum is 1 after the first cell and 2 after the second; with the five
  cells of Scenario A, of which \<open>1\<close> and \<open>2\<close> parse, \<open>numeric_min\<close> ends at 5 and
  \<open>numeric_max\<close> at 2.
\<close>

theorem numeric_min_incremented_on_every_cell:
  "numeric_min (analyze_cell tpf nl sc m fs c) =
     (case tpf c of
        None \<Rightarrow> dadd (numeric_min fs) (Num 1)
      | Some v \<Rightarrow>
          if isnan (dadd (numeric_min fs) (Num 1)) \<or> dless v (dadd (numeric_min fs) (Num 1))
          then v else dadd (numeric_min fs) (Num 1))
   \<and> numeric_min
        (analyze_cells scenario_parse {} False 5000 (column_analysis ''c'') [''1''])
       = Num 1
   \<and> numeric_min
        (analyze_cells scenario_parse {} False 5000 (column_analysis ''c'') [''1'', ''2''])
       = Num 2
   \<and> numeric_min
        (analyze_cells scenario_parse {} False 5000 (column_analysis ''c'')
           [''1'', ''2'', '''', ''  '', ''abc''])
       = Num 5
   \<and> numeric_max
        (analyze_cells scenario_parse {} False 5000 (column_analysis ''c'')
           [''1'', ''2'', '''', ''  '', ''abc''])
       = Num 2"
  by (simp add: analyze_cell_fields column_analysis_def scenario_parse_cells round_binary64_small
      isnan_def dgreater_def)

text \<open>
  Claim C9, evaluated on the code. After the cells \<open>1\<close> and \<open>abc\<close> both fields are present,
  \<open>numeric_min\<close> is 2 and \<open>numeric_max\<close> is 1: the maximum is less than the minimum.
\<close>

theorem numeric_min_exceeds_numeric_max:
  "numeric_min
     (analyze_cells scenario_parse {} False 5000 (column_analysis ''c'') [''1'', ''abc''])
     = Num 2
   \<and> numeric_max
       (analyze_cells scenario_parse {} False 5000 (column_analysis ''c'') [''1'', ''abc''])
       = Num 1
   \<and> dless
       (numeric_max
          (analyze_cells scenario_parse {} False 5000 (column_analysis ''c'')
             [''1'', ''abc'']))
       (numeric_min
          (analyze_cells scenario_parse {} False 5000 (column_analysis ''c'')
             [''1'', ''abc'']))"
  by (simp add: analyze_cell_fields column_analysis_def scenario_parse_cells round_binary64_small
      isnan_def dgreater_def)

subsection \<open>The exceptions of the driver\<close>

lemma check_dtypes_eq:
  "check_dtypes ts =
     (if list_all (\<lambda>t. dtype t = dt_string) ts then None else Some runtime_error)"
  by (induction ts) (simp_all split: data_type.split)

text \<open>
  Claim C7, as the code has it. If a feature of the first example is not a string tensor, the
  analysis ends with the \<^verbatim>\<open>runtime_error\<close> and returns no result. At the throw the
  accumulators of the schema of that example have been created, one for each descriptor; each
  is as the constructor made it, and no row has been folded into any of them.
\<close>

theorem non_string_first_batch_fails:
  assumes "\<not> list_all (\<lambda>t. dtype t = dt_string) (features exm)"
  shows "analyze_dataset tpf (exm # reader) nl cc m = Inl runtime_error
         \<and> analyze_loop tpf nl cc m (exm # reader) [] =
             (Some runtime_error, map column_analysis (descriptors exm))
         \<and> list_all (\<lambda>fs. rows_seen fs = 0) (snd (analyze_loop tpf nl cc m (exm # reader) []))"
proof -
  have "analyze_loop tpf nl cc m (exm # reader) [] =
          (Some runtime_error, map column_analysis (descriptors exm))"
    using assms by (simp add: allocate_columns_def check_dtypes_eq)
  then show ?thesis
    by (simp add: analyze_dataset_def list_all_iff column_analysis_def)
qed

text \<open>The hypothesis of C7 at an example of two columns, the second of type float32.\<close>

theorem non_string_first_batch_fails_witness:
  "\<not> list_all (\<lambda>t. dtype t = dt_string)
       (features \<lparr>descriptors = [''a'', ''b''],
                  features = [\<lparr>dtype = dt_string, cells = [''1'']\<rparr>,
                              \<lparr>dtype = dt_float32, cells = []\<rparr>]\<rparr>)
   \<and> analyze_dataset scenario_parse
       [\<lparr>descriptors = [''a'', ''b''],
         features = [\<lparr>dtype = dt_string, cells = [''1'']\<rparr>,
                     \<lparr>dtype = dt_float32, cells = []\<rparr>]\<rparr>] {} {} 5000
     = Inl runtime_error"
proof -
  have h: "\<not> list_all (\<lambda>t. dtype t = dt_string)
       (features \<lparr>descriptors = [''a'', ''b''],
                  features = [\<lparr>dtype = dt_string, cells = [''1'']\<rparr>,
                              \<lparr>dtype = dt_float32, cells = []\<rparr>]\<rparr>)"
    by simp
  from non_string_first_batch_fails [OF h, of scenario_parse "[]" "{}" "{}" 5000]
  have "analyze_dataset scenario_parse
       [\<lparr>descriptors = [''a'', ''b''],
         features = [\<lparr>dtype = dt_string, cells = [''1'']\<rparr>,
                     \<lparr>dtype = dt_float32, cells = []\<rparr>]\<rparr>] {} {} 5000
     = Inl runtime_error"
    by (rule conjunct1)
  with h show ?thesis by (rule conjI)
qed

text \<open>
  Claim C7, as stated, at an example with one float32 column: the claim has the failure happen
  before any accumulator is created. When the exception is thrown the vector of accumulators
  holds one accumulator.
\<close>

theorem accumulators_created_before_type_check_counterexample:
  "fst (analyze_loop scenario_parse {} {} 5000
          [\<lparr>descriptors = [''a''], features = [\<lparr>dtype = dt_float32, cells = []\<rparr>]\<rparr>] [])
     = Some runtime_error
   \<and> snd (analyze_loop scenario_parse {} {} 5000
          [\<lparr>descriptors = [''a''], features = [\<lparr>dtype = dt_float32, cells = []\<rparr>]\<rparr>] [])
     = [column_analysis ''a'']
   \<and> snd (analyze_loop scenario_parse {} {} 5000
          [\<lparr>descriptors = [''a''], features = [\<lparr>dtype = dt_float32, cells = []\<rparr>]\<rparr>] [])
     \<noteq> []"
  by (simp add: allocate_columns_def)



















end
